theory Spec2Isabelle
  imports Complex_Main
begin

section \<open>The limit-up watcher of dailyLimit/watcher.py\<close>

text \<open>
  The watcher polls a quote source, keeps one \<open>StockQuoteInfo\<close> per stock code and sends a
  notification when a stock at its limit-up price passes a chain of filters. Everything
  lives in \<open>Strategy.next\<close> (one polling cycle) and \<open>start\<close> (the driver loop).

  Modelling decisions.
  \<^item> A Python \<open>float\<close> is a binary64 number and is modelled by the real number it holds.
    Comparisons are exact. The result of a subtraction, multiplication or division is the
    exact result rounded to the nearest binary64 number, ties to even (\<open>fl\<close> below), and
    a decimal literal of the source is the binary64 number nearest to it. The exponent
    range is not bounded: overflow, subnormal numbers, infinities and NaN are outside the
    model.
  \<^item> A \<open>datetime\<close> is the number of microseconds since a fixed origin, an \<open>int\<close>.
    The difference of two datetimes is a \<open>timedelta\<close>, which Python normalises into days,
    seconds (0 to 86399) and microseconds; its attribute \<open>.seconds\<close> is the seconds
    component, not the total number of seconds.
  \<^item> The three tip strings are distinct constants: a datatype. The variable \<open>tip\<close> starts
    as \<open>None\<close>: a \<open>tip option\<close>.
  \<^item> Exceptions are values of type \<open>error\<close>; a function that can raise returns
    \<open>error + 'a\<close>. No exception is caught anywhere in the source.
  \<^item> The dictionary \<open>stock_code_info\<close> is a map from stock codes to records. The record
    fetched from it is mutated in place; the model stores the updated record back.
\<close>

subsection \<open>Floating-point rounding\<close>

text \<open>The number of binary digits of a natural number (Python's \<open>int.bit_length\<close>).\<close>

fun bit_length :: "nat \<Rightarrow> nat" where
  "bit_length n = (if n = 0 then 0 else Suc (bit_length (n div 2)))"

declare bit_length.simps [simp del]

text \<open>For positive \<open>x\<close>, the integer \<open>t\<close> with \<open>2 ^ t \<le> x < 2 ^ (t + 1)\<close>.\<close>

definition ilog2 :: "real \<Rightarrow> int" where
  "ilog2 x =
     (if 1 \<le> x then int (bit_length (nat \<lfloor>x\<rfloor>)) - 1
      else - int (bit_length (nat (\<lceil>1 / x\<rceil> - 1))))"

definition round_half_even :: "real \<Rightarrow> int" where
  "round_half_even x =
     (let f = \<lfloor>x\<rfloor>; d = x - of_int f
      in if d < 1 / 2 then f else if d > 1 / 2 then f + 1 else if even f then f else f + 1)"

definition pow2 :: "int \<Rightarrow> real" where
  "pow2 e = (if 0 \<le> e then 2 ^ nat e else 1 / 2 ^ nat (- e))"

text \<open>
  Rounding to binary64: the significand has 53 binary digits, so a number whose leading
  digit has weight \<open>2 ^ t\<close> is rounded to a multiple of \<open>2 ^ (t - 52)\<close>.
\<close>

definition fl :: "real \<Rightarrow> real" where
  "fl x =
     (if x = 0 then 0
      else (let e = ilog2 \<bar>x\<bar> - 52
            in sgn x * of_int (round_half_even (\<bar>x\<bar> / pow2 e)) * pow2 e))"

subsection \<open>Data\<close>

type_synonym datetime = int

datatype error = KeyError | TypeError | ZeroDivisionError

datatype tip = ZT_TIP | ZT_KEEP_TIP | ZT_BREAK_TIP

definition ZT_NOTICE_MAX_SECONDS :: int where
  "ZT_NOTICE_MAX_SECONDS = 33"

definition TEST_MODE :: bool where
  "TEST_MODE = True"

record StockQuoteInfo =
  stock_code :: string
  stock_name :: string
  dt :: datetime
  price :: real
  top_price :: real
  bottom_price :: real
  latest_zt_dt :: "datetime option"
  latest_nzt_dt :: datetime
  total_market_value :: real
  circulating_market_value :: real
  turnover_rate :: real
  trading_volume :: real
  trading_amount :: real
  sell_1_price :: real
  buy_1_price :: real
  sell_1_count :: real
  buy_1_count :: real

text \<open>
  A row of the realtime quote table (\<open>ef.stock.get_realtime_quotes\<close>), with the columns
  the cycle reads. The change column holds a number or the string \<open>'-'\<close> (here \<open>None\<close>).
\<close>

record quote_row =
  row_stock_code :: string
  row_stock_name :: string
  row_change_pct :: "real option"
  row_total_market_value :: real
  row_circulating_market_value :: real

text \<open>A quote snapshot (\<open>ef.stock.get_quote_snapshot\<close>), with the entries the cycle reads.\<close>

record snapshot =
  sn_top_price :: real
  sn_bottom_price :: real
  sn_price :: real
  sn_turnover_rate :: real
  sn_trading_volume :: real
  sn_trading_amount :: real
  sn_sell_1_price :: real
  sn_buy_1_price :: real
  sn_sell_1_count :: real
  sn_buy_1_count :: real
  sn_buy_2_count :: real
  sn_buy_3_count :: real
  sn_buy_4_count :: real
  sn_buy_5_count :: real

text \<open>
  The text handed to \<open>notify.send_text\<close> and \<open>rich.print\<close> is an f-string; the model keeps
  the values it interpolates, in the order of the string. Sending is external (the module
  \<open>notify\<close> and the quote functions of \<open>efinance\<close> are not part of this file): the model
  records the message and takes the send, like the quote scan, to return.
\<close>

record message =
  msg_stock_code :: string
  msg_stock_name :: string
  msg_total_market_value :: real
  msg_turnover_rate :: real
  msg_trading_volume :: real
  msg_trading_amount :: real
  msg_price :: real
  msg_buy_list :: "real list"
  msg_tip :: "tip option"
  msg_zt_keep_seconds :: int
  msg_dt :: datetime

type_synonym stock_code_info = "string \<rightharpoonup> StockQuoteInfo"

subsection \<open>\<open>StockQuoteInfo.zt_keep_seconds\<close>\<close>

text \<open>\<open>(a - b).seconds\<close> for two datetimes: floor division, as Python normalises.\<close>

definition timedelta_seconds :: "datetime \<Rightarrow> datetime \<Rightarrow> int" where
  "timedelta_seconds a b = ((a - b) div 1000000) mod 86400"

text \<open>
  \<open>return (self.latest_zt_dt - self.latest_nzt_dt).seconds\<close>: subtracting a datetime
  from \<open>None\<close> raises \<open>TypeError\<close>.
\<close>

definition zt_keep_seconds :: "StockQuoteInfo \<Rightarrow> error + int" where
  "zt_keep_seconds self =
     (case latest_zt_dt self of
        None \<Rightarrow> Inl TypeError
      | Some z \<Rightarrow> Inr (timedelta_seconds z (latest_nzt_dt self)))"

subsection \<open>\<open>Clock.next\<close>\<close>

text \<open>
  \<open>'09:15:00' <= dt.strftime('%H:%M:%S') <= '15:00:00'\<close>: the strings have a fixed
  width, so their order is the order of the whole seconds of the day.
\<close>

definition Clock_next :: "datetime \<Rightarrow> bool" where
  "Clock_next now =
     (let s = (now div 1000000) mod 86400
      in 9 * 3600 + 15 * 60 \<le> s \<and> s \<le> 15 * 3600)"

subsection \<open>\<open>get_snapshot_fast\<close>\<close>

text \<open>
  One task per stock code stores the fetched snapshot under its code. A fetch that raises
  ends its task without storing anything, so the code is missing from the dictionary.
  The fetch itself is external: a partial function, \<open>None\<close> where it raises.
\<close>

definition get_snapshot_fast :: "(string \<rightharpoonup> snapshot) \<Rightarrow> string list \<Rightarrow> (string \<rightharpoonup> snapshot)" where
  "get_snapshot_fast get_quote_snapshot stock_codes =
     (\<lambda>c. if c \<in> set stock_codes then get_quote_snapshot c else None)"

subsection \<open>\<open>Strategy.next\<close>: the state tracker (lines 142 to 190)\<close>

text \<open>Lines 146 to 162: the record created at the first sighting of a stock.\<close>

definition new_info :: "datetime \<Rightarrow> quote_row \<Rightarrow> snapshot \<Rightarrow> StockQuoteInfo" where
  "new_info now row sn =
     \<lparr> stock_code = row_stock_code row,
       stock_name = row_stock_name row,
       dt = now,
       price = sn_price sn,
       top_price = sn_top_price sn,
       bottom_price = sn_bottom_price sn,
       latest_zt_dt = None,
       latest_nzt_dt = now,
       total_market_value = row_total_market_value row,
       circulating_market_value = row_circulating_market_value row,
       turnover_rate = sn_turnover_rate sn,
       trading_volume = sn_trading_volume sn,
       trading_amount = sn_trading_amount sn,
       sell_1_price = sn_sell_1_price sn,
       buy_1_price = sn_buy_1_price sn,
       sell_1_count = sn_sell_1_count sn,
       buy_1_count = sn_buy_1_count sn \<rparr>"

text \<open>
  Lines 169 to 187: the tip and the time stamp it updates. The test of line 171 compares
  the rounded difference with the binary64 number nearest to \<open>1e-2\<close>.
\<close>

definition classify :: "bool \<Rightarrow> real \<Rightarrow> real \<Rightarrow> datetime \<Rightarrow> StockQuoteInfo \<Rightarrow> tip option \<times> StockQuoteInfo" where
  "classify first top_px current_price now pre_info =
     (if \<bar>fl (top_px - current_price)\<bar> \<le> fl (1 / 100) then
        (if first \<or> current_price > price pre_info then
           (Some ZT_TIP, pre_info\<lparr>latest_zt_dt := Some now\<rparr>)
         else if current_price = price pre_info then
           (Some ZT_KEEP_TIP, pre_info\<lparr>latest_zt_dt := Some now\<rparr>)
         else
           (Some ZT_BREAK_TIP, pre_info\<lparr>latest_nzt_dt := now\<rparr>))
      else
        (None, pre_info\<lparr>latest_nzt_dt := now\<rparr>))"

text \<open>
  Lines 142 to 190 for one candidate: look the record up, create it at a first sighting,
  classify, then set \<open>price\<close> and \<open>dt\<close> whatever the branch was.
\<close>

definition track :: "datetime \<Rightarrow> quote_row \<Rightarrow> snapshot \<Rightarrow> StockQuoteInfo option \<Rightarrow> tip option \<times> StockQuoteInfo" where
  "track now row sn found =
     (let first = (found = None);
          pre_info = (case found of None \<Rightarrow> new_info now row sn | Some r \<Rightarrow> r);
          (tip, pre_info) = classify first (sn_top_price sn) (sn_price sn) now pre_info
      in (tip, pre_info\<lparr>price := sn_price sn, dt := now\<rparr>))"

subsection \<open>\<open>Strategy.next\<close>: the filters (lines 195 to 222)\<close>

text \<open>
  Lines 195 to 197. \<open>or\<close> and \<open>and\<close> evaluate from the left and stop early, so
  \<open>zt_keep_seconds\<close> is read only when the tip is \<open>ZT_KEEP_TIP\<close>.
\<close>

definition notice_gate :: "tip option \<Rightarrow> StockQuoteInfo \<Rightarrow> error + bool" where
  "notice_gate tip pre_info =
     (if tip = Some ZT_TIP then Inr True
      else if tip = Some ZT_KEEP_TIP then
        (case zt_keep_seconds pre_info of
           Inl e \<Rightarrow> Inl e
         | Inr s \<Rightarrow> Inr (s \<le> ZT_NOTICE_MAX_SECONDS))
      else Inr False)"

text \<open>Python's \<open>/\<close> on floats raises on a zero divisor and rounds the quotient.\<close>

definition truediv :: "real \<Rightarrow> real \<Rightarrow> error + real" where
  "truediv a b = (if b = 0 then Inl ZeroDivisionError else Inr (fl (a / b)))"

text \<open>
  Lines 201 to 218: each \<open>continue\<close> is the result \<open>False\<close>; reaching line 220 is \<open>True\<close>.
  The bounds of lines 201 to 207 are integers or binary64 numbers themselves; \<open>0.05\<close>,
  \<open>0.15\<close> and \<open>0.005\<close> are not and stand for their nearest binary64 numbers. The product
  of line 214 is evaluated from the left, each multiplication rounded.
\<close>

definition rule_chain :: "StockQuoteInfo \<Rightarrow> error + bool" where
  "rule_chain pre_info =
     (if total_market_value pre_info < 10 * 10000 * 10000
         \<or> total_market_value pre_info > 1000 * 10000 * 10000 then Inr False
      else if price pre_info < 3 \<or> price pre_info > 20 then Inr False
      else if turnover_rate pre_info < 5 \<or> turnover_rate pre_info > 15 then Inr False
      else
        (case truediv (trading_amount pre_info) (total_market_value pre_info) of
           Inl e \<Rightarrow> Inl e
         | Inr p \<Rightarrow>
             if p < fl (5 / 100) \<or> p > fl (15 / 100) then Inr False
             else
               (case truediv (fl (fl (buy_1_count pre_info * 100) * buy_1_price pre_info))
                             (total_market_value pre_info) of
                  Inl e \<Rightarrow> Inl e
                | Inr q \<Rightarrow>
                    if q < fl (5 / 1000) then Inr False
                    else
                      (case zt_keep_seconds pre_info of
                         Inl e \<Rightarrow> Inl e
                       | Inr s \<Rightarrow> if s < 30 then Inr False else Inr True))))"

text \<open>Lines 164 to 168: the five bid sizes shown in the message.\<close>

definition buy_list :: "snapshot \<Rightarrow> real list" where
  "buy_list sn =
     [sn_buy_1_count sn, sn_buy_2_count sn, sn_buy_3_count sn, sn_buy_4_count sn,
      sn_buy_5_count sn]"

text \<open>Line 220: the message, which reads \<open>zt_keep_seconds\<close> once more.\<close>

definition render :: "datetime \<Rightarrow> quote_row \<Rightarrow> snapshot \<Rightarrow> tip option \<Rightarrow> StockQuoteInfo \<Rightarrow> error + message" where
  "render now row sn tip pre_info =
     (case zt_keep_seconds pre_info of
        Inl e \<Rightarrow> Inl e
      | Inr s \<Rightarrow>
          Inr \<lparr> msg_stock_code = row_stock_code row,
                msg_stock_name = row_stock_name row,
                msg_total_market_value = total_market_value pre_info,
                msg_turnover_rate = turnover_rate pre_info,
                msg_trading_volume = trading_volume pre_info,
                msg_trading_amount = trading_amount pre_info,
                msg_price = price pre_info,
                msg_buy_list = buy_list sn,
                msg_tip = tip,
                msg_zt_keep_seconds = s,
                msg_dt = now \<rparr>)"

text \<open>Lines 195 to 222: the message sent for this candidate, if any.\<close>

definition notice :: "datetime \<Rightarrow> quote_row \<Rightarrow> snapshot \<Rightarrow> tip option \<Rightarrow> StockQuoteInfo \<Rightarrow> error + message option" where
  "notice now row sn tip pre_info =
     (case notice_gate tip pre_info of
        Inl e \<Rightarrow> Inl e
      | Inr g \<Rightarrow>
          if \<not> g then Inr None
          else
            (case rule_chain pre_info of
               Inl e \<Rightarrow> Inl e
             | Inr ok \<Rightarrow>
                 if \<not> ok then Inr None
                 else
                   (case render now row sn tip pre_info of
                      Inl e \<Rightarrow> Inl e
                    | Inr m \<Rightarrow> Inr (Some m))))"

subsection \<open>\<open>Strategy.next\<close>: one cycle\<close>

text \<open>
  The body of the loop over the candidates (lines 131 to 222). \<open>sns[stock_code]\<close> raises
  \<open>KeyError\<close> when the code is not in the dictionary.
\<close>

definition next_row :: "datetime \<Rightarrow> (string \<rightharpoonup> snapshot) \<Rightarrow> quote_row \<Rightarrow> stock_code_info \<Rightarrow> error + (stock_code_info \<times> message option)" where
  "next_row now sns row info =
     (case sns (row_stock_code row) of
        None \<Rightarrow> Inl KeyError
      | Some sn \<Rightarrow>
          (let (tip, pre_info) = track now row sn (info (row_stock_code row));
               info' = info(row_stock_code row \<mapsto> pre_info)
           in case notice now row sn tip pre_info of
                Inl e \<Rightarrow> Inl e
              | Inr m \<Rightarrow> Inr (info', m)))"

text \<open>The loop of line 130: an exception in one iteration ends the loop.\<close>

fun next_rows :: "datetime \<Rightarrow> (string \<rightharpoonup> snapshot) \<Rightarrow> quote_row list \<Rightarrow> stock_code_info \<Rightarrow> error + (stock_code_info \<times> message list)" where
  "next_rows now sns [] info = Inr (info, [])"
| "next_rows now sns (row # rows) info =
     (case next_row now sns row info of
        Inl e \<Rightarrow> Inl e
      | Inr (info', m) \<Rightarrow>
          (case next_rows now sns rows info' of
             Inl e \<Rightarrow> Inl e
           | Inr (info'', ms) \<Rightarrow> Inr (info'', (case m of None \<Rightarrow> [] | Some x \<Rightarrow> [x]) @ ms)))"

text \<open>Lines 124 and 126: keep the rows whose change is a number above 8.\<close>

definition candidates :: "quote_row list \<Rightarrow> quote_row list" where
  "candidates quotes =
     filter (\<lambda>r. case row_change_pct r of None \<Rightarrow> False | Some c \<Rightarrow> c > 8)
       (filter (\<lambda>r. row_change_pct r \<noteq> None) quotes)"

text \<open>
  \<open>Strategy.next\<close>: the quote table and the snapshot fetch come from outside; the result
  is the new dictionary and the messages sent, or the exception that left the method.
\<close>

definition Strategy_next :: "datetime \<Rightarrow> quote_row list \<Rightarrow> (string \<rightharpoonup> snapshot) \<Rightarrow> stock_code_info \<Rightarrow> error + (stock_code_info \<times> message list)" where
  "Strategy_next now all_quotes get_quote_snapshot info =
     (let quotes = candidates all_quotes
      in if length quotes = 0 then Inr (info, [])
         else next_rows now (get_snapshot_fast get_quote_snapshot (map row_stock_code quotes))
                quotes info)"

subsection \<open>\<open>start\<close>: the driver loop\<close>

text \<open>
  What the loop sees from outside at each test of its condition: the running flag (cleared
  by \<open>stop\<close>), the time, the quote table and the snapshot fetch of that cycle.
\<close>

record cycle =
  cy_running :: bool
  cy_now :: datetime
  cy_quotes :: "quote_row list"
  cy_get_quote_snapshot :: "string \<rightharpoonup> snapshot"

text \<open>
  How \<open>start\<close> ends: the loop condition became false and the closing line was printed, or
  an exception left \<open>strategy.next\<close> and with it \<open>start\<close>.
\<close>

datatype ending = Finished stock_code_info "message list" | Raised error

text \<open>
  The loop runs as long as the outside world lets it: the model runs it over a finite
  list of cycles and answers \<open>None\<close> when the loop is still running after the last one.
\<close>

fun start_loop :: "cycle list \<Rightarrow> stock_code_info \<Rightarrow> message list \<Rightarrow> ending option" where
  "start_loop [] info sent = None"
| "start_loop (c # cs) info sent =
     (if cy_running c \<and> (Clock_next (cy_now c) \<or> TEST_MODE) then
        (case Strategy_next (cy_now c) (cy_quotes c) (cy_get_quote_snapshot c) info of
           Inl e \<Rightarrow> Some (Raised e)
         | Inr (info', ms) \<Rightarrow> start_loop cs info' (sent @ ms))
      else Some (Finished info sent))"

definition start :: "cycle list \<Rightarrow> ending option" where
  "start cs = start_loop cs Map.empty []"

subsection \<open>The tracker over the successive sightings of one stock\<close>

text \<open>
  The records and tips of one stock over a sequence of cycles in which it is a candidate:
  each sighting is classified against the record the previous one left.
\<close>

fun track_seq :: "quote_row \<Rightarrow> (datetime \<times> snapshot) list \<Rightarrow> StockQuoteInfo option \<Rightarrow> (tip option \<times> StockQuoteInfo) list" where
  "track_seq row [] found = []"
| "track_seq row ((now, sn) # xs) found =
     (let r = track now row sn found in r # track_seq row xs (Some (snd r)))"

subsection \<open>Notions used in the statements\<close>

text \<open>The market and liquidity fields of a record, and the values a fresh sighting offers for them.\<close>

definition market_fields :: "StockQuoteInfo \<Rightarrow> real list" where
  "market_fields r =
     [total_market_value r, circulating_market_value r, turnover_rate r, trading_volume r,
      trading_amount r, sell_1_price r, buy_1_price r, sell_1_count r, buy_1_count r]"

definition latest_market_fields :: "quote_row \<Rightarrow> snapshot \<Rightarrow> real list" where
  "latest_market_fields row sn =
     [row_total_market_value row, row_circulating_market_value row, sn_turnover_rate sn,
      sn_trading_volume sn, sn_trading_amount sn, sn_sell_1_price sn, sn_buy_1_price sn,
      sn_sell_1_count sn, sn_buy_1_count sn]"

text \<open>The test of line 171 on a snapshot, as the program computes it.\<close>

definition at_limit :: "snapshot \<Rightarrow> bool" where
  "at_limit sn = (\<bar>fl (sn_top_price sn - sn_price sn)\<bar> \<le> fl (1 / 100))"


text \<open>A message was sent.\<close>

definition notifies :: "error + message option \<Rightarrow> bool" where
  "notifies res = (case res of Inl e \<Rightarrow> False | Inr None \<Rightarrow> False | Inr (Some m) \<Rightarrow> True)"

text \<open>The hold time is defined and satisfies a bound.\<close>

definition hold_seconds_sat :: "(int \<Rightarrow> bool) \<Rightarrow> StockQuoteInfo \<Rightarrow> bool" where
  "hold_seconds_sat P r = (case zt_keep_seconds r of Inl e \<Rightarrow> False | Inr s \<Rightarrow> P s)"

text \<open>
  The six rules as the specification's table words them (the condition to pass): the two
  ratios are exact quotients, and the hold time is the difference of the two time stamps in
  seconds.
\<close>

definition spec_rule_market_cap :: "StockQuoteInfo \<Rightarrow> bool" where
  "spec_rule_market_cap r = (10 ^ 9 \<le> total_market_value r \<and> total_market_value r \<le> 10 ^ 11)"

definition spec_rule_price :: "StockQuoteInfo \<Rightarrow> bool" where
  "spec_rule_price r = (3 \<le> price r \<and> price r \<le> 20)"

definition spec_rule_turnover :: "StockQuoteInfo \<Rightarrow> bool" where
  "spec_rule_turnover r = (5 \<le> turnover_rate r \<and> turnover_rate r \<le> 15)"

definition spec_rule_amount :: "StockQuoteInfo \<Rightarrow> bool" where
  "spec_rule_amount r =
     (5 / 100 \<le> trading_amount r / total_market_value r
      \<and> trading_amount r / total_market_value r \<le> 15 / 100)"

definition spec_rule_depth :: "StockQuoteInfo \<Rightarrow> bool" where
  "spec_rule_depth r = (buy_1_count r * 100 * buy_1_price r / total_market_value r \<ge> 5 / 1000)"

definition spec_rule_hold :: "StockQuoteInfo \<Rightarrow> bool" where
  "spec_rule_hold r =
     (case latest_zt_dt r of
        None \<Rightarrow> False
      | Some z \<Rightarrow> 30 * 1000000 \<le> z - latest_nzt_dt r)"

definition spec_rules :: "StockQuoteInfo \<Rightarrow> bool" where
  "spec_rules r =
     (spec_rule_market_cap r \<and> spec_rule_price r \<and> spec_rule_turnover r
      \<and> spec_rule_amount r \<and> spec_rule_depth r \<and> spec_rule_hold r)"


text \<open>
  Rules 4 to 6 on the values the program computes: the ratios rounded as in lines 210 to
  215 and compared with the binary64 bounds, and the hold time read through
  \<open>zt_keep_seconds\<close>. They are the conditions to pass; \<open>rule_chain\<close> is written from the
  source's conditions to skip.
\<close>

definition float_rule_amount :: "StockQuoteInfo \<Rightarrow> bool" where
  "float_rule_amount r =
     (fl (5 / 100) \<le> fl (trading_amount r / total_market_value r)
      \<and> fl (trading_amount r / total_market_value r) \<le> fl (15 / 100))"

definition float_rule_depth :: "StockQuoteInfo \<Rightarrow> bool" where
  "float_rule_depth r =
     (fl (fl (fl (buy_1_count r * 100) * buy_1_price r) / total_market_value r) \<ge> fl (5 / 1000))"




text \<open>The record a cycle leaves under a stock code, when the cycle raised nothing.\<close>

definition info_after :: "error + (stock_code_info \<times> 'a) \<Rightarrow> string \<Rightarrow> StockQuoteInfo option" where
  "info_after res code = (case res of Inl e \<Rightarrow> None | Inr (info, out) \<Rightarrow> info code)"

text \<open>The message a cycle step sent, if it sent one.\<close>

definition message_of :: "error + (stock_code_info \<times> message option) \<Rightarrow> message option" where
  "message_of res = (case res of Inl e \<Rightarrow> None | Inr (info, m) \<Rightarrow> m)"

text \<open>Every candidate of the quote table has a snapshot.\<close>

definition all_fetched :: "quote_row list \<Rightarrow> (string \<rightharpoonup> snapshot) \<Rightarrow> bool" where
  "all_fetched all_quotes get_quote_snapshot =
     list_all (\<lambda>row. get_quote_snapshot (row_stock_code row) \<noteq> None) (candidates all_quotes)"

subsection \<open>Concrete inputs\<close>

text \<open>A candidate and a snapshot at its limit price whose values pass the first five rules.\<close>

definition ex_row :: quote_row where
  "ex_row =
     \<lparr> row_stock_code = ''600000'', row_stock_name = ''PFYH'', row_change_pct = Some 10,
       row_total_market_value = 1000000000, row_circulating_market_value = 800000000 \<rparr>"

definition ex_sn :: snapshot where
  "ex_sn =
     \<lparr> sn_top_price = 10, sn_bottom_price = 33 / 4, sn_price = 10, sn_turnover_rate = 10,
       sn_trading_volume = 100000, sn_trading_amount = 100000000, sn_sell_1_price = 0,
       sn_buy_1_price = 10, sn_sell_1_count = 0, sn_buy_1_count = 30000,
       sn_buy_2_count = 100, sn_buy_3_count = 200, sn_buy_4_count = 300,
       sn_buy_5_count = 400 \<rparr>"

text \<open>A second candidate, whose snapshot fetch fails in the cycles below.\<close>

definition ex_row2 :: quote_row where
  "ex_row2 =
     \<lparr> row_stock_code = ''000001'', row_stock_name = ''PAYH'', row_change_pct = Some 9,
       row_total_market_value = 2000000000, row_circulating_market_value = 2000000000 \<rparr>"

text \<open>The record of \<open>ex_row\<close> after a first sighting at time 0, below the limit price.\<close>

definition ex_info :: StockQuoteInfo where
  "ex_info = new_info 0 ex_row (ex_sn\<lparr>sn_price := 39 / 4\<rparr>)"

text \<open>
  The record after \<open>ex_info\<close> when the stock reaches its limit price 40 seconds later
  (the price rose, so the tip is \<open>ZT_TIP\<close>).
\<close>

definition ex_hit :: StockQuoteInfo where
  "ex_hit = snd (track 40000000 ex_row ex_sn (Some ex_info))"

text \<open>
  The record of a stock first seen at its limit price at time 0 and seen again at the same
  price 40 seconds later (the tip is \<open>ZT_KEEP_TIP\<close>).
\<close>

definition ex_keep :: StockQuoteInfo where
  "ex_keep = snd (track 40000000 ex_row ex_sn (Some (snd (track 0 ex_row ex_sn None))))"

text \<open>A cycle with two candidates in which the snapshot of the first one is missing.\<close>

definition ex_cycle :: cycle where
  "ex_cycle =
     \<lparr> cy_running = True, cy_now = 0, cy_quotes = [ex_row2, ex_row],
       cy_get_quote_snapshot = [''600000'' \<mapsto> ex_sn] \<rparr>"





section \<open>Properties\<close>

subsection \<open>Evaluating the rounding\<close>

lemma bit_length_0: "bit_length 0 = 0"
  by (simp add: bit_length.simps)

lemma bit_length_1: "bit_length 1 = 1"
  by (simp add: bit_length.simps)

lemma bit_length_Suc_0: "bit_length (Suc 0) = Suc 0"
  by (simp add: bit_length.simps)

lemma bit_length_numeral: "bit_length (numeral k) = Suc (bit_length (numeral k div 2))"
  by (subst bit_length.simps) simp

lemmas fl_eval =
  fl_def ilog2_def round_half_even_def pow2_def Let_def
  bit_length_0 bit_length_1 bit_length_Suc_0 bit_length_numeral

text \<open>
  Anchors: integers of moderate size are binary64 numbers, and the literals of the source
  round to the numbers their IEEE 754 encodings denote (\<open>0.01\<close> is \<open>0x3F847AE147AE147B\<close>,
  \<open>0.1\<close> is \<open>0x3FB999999999999A\<close>).
\<close>

lemma fl_anchors:
  "fl 10 = 10" "fl 1000000000 = 1000000000" "fl (39 / 4) = 39 / 4"
  "fl (1 / 100) = 5764607523034235 / 2 ^ 59"
  "fl (1 / 10) = 3602879701896397 / 2 ^ 55"
  "fl (- (1 / 10)) = - (3602879701896397 / 2 ^ 55)"
  by (simp_all add: fl_eval)

lemma fl_literals:
  "fl (1 / 100) = 5764607523034235 / 576460752303423488"
  "fl (5 / 100) = 3602879701896397 / 72057594037927936"
  "fl (15 / 100) = 5404319552844595 / 36028797018963968"
  "fl (5 / 1000) = 5764607523034235 / 1152921504606846976"
  by (simp_all add: fl_eval)

lemma fl_0: "fl 0 = 0"
  by (simp add: fl_def)

subsection \<open>The hold time\<close>

lemma timedelta_seconds_range: "0 \<le> timedelta_seconds a b \<and> timedelta_seconds a b < 86400"
  by (simp add: timedelta_seconds_def)

subsection \<open>The state tracker\<close>

lemma track_Some:
  "track now row sn (Some r) =
     (fst (classify False (sn_top_price sn) (sn_price sn) now r),
      (snd (classify False (sn_top_price sn) (sn_price sn) now r))\<lparr>price := sn_price sn, dt := now\<rparr>)"
  by (simp add: track_def split_beta)

lemma track_None:
  "track now row sn None =
     (fst (classify True (sn_top_price sn) (sn_price sn) now (new_info now row sn)),
      (snd (classify True (sn_top_price sn) (sn_price sn) now (new_info now row sn)))\<lparr>price := sn_price sn, dt := now\<rparr>)"
  by (simp add: track_def split_beta Let_def)


lemma track_tip_None:
  "fst (track now row sn None) = (if at_limit sn then Some ZT_TIP else None)"
  by (simp add: track_None classify_def at_limit_def)

lemma track_price: "price (snd (track now row sn found)) = sn_price sn"
  by (cases found) (simp_all add: track_Some track_None)

lemma track_dt: "dt (snd (track now row sn found)) = now"
  by (cases found) (simp_all add: track_Some track_None)


lemma track_tip_zt:
  "fst (track now row sn found) = Some ZT_TIP \<or> fst (track now row sn found) = Some ZT_KEEP_TIP
   \<Longrightarrow> latest_zt_dt (snd (track now row sn found)) = Some now"
  by (cases found) (auto simp: track_Some track_None classify_def split: if_splits)

lemma track_market_fields:
  "market_fields (snd (track now row sn (Some r))) = market_fields r"
  by (simp add: track_Some classify_def market_fields_def)

lemma track_nzt:
  "latest_nzt_dt (snd (track now row sn found)) = now
   \<or> (\<exists>r. found = Some r \<and> latest_nzt_dt (snd (track now row sn found)) = latest_nzt_dt r)"
  by (cases found) (auto simp: track_Some track_None classify_def new_info_def)



lemma track_seq_times:
  assumes "sorted (map fst xs)"
    and "\<forall>r. found = Some r \<longrightarrow> (\<forall>t \<in> set (map fst xs). latest_nzt_dt r \<le> t)"
    and "(tip, r') \<in> set (track_seq row xs found)"
    and "tip = Some ZT_TIP \<or> tip = Some ZT_KEEP_TIP"
  shows "\<exists>z. latest_zt_dt r' = Some z \<and> latest_nzt_dt r' \<le> z"
  using assms
proof (induction xs arbitrary: found)
  case Nil
  then show ?case by simp
next
  case (Cons x xs)
  obtain now sn where x: "x = (now, sn)" by (cases x)
  let ?h = "track now row sn found"
  from Cons.prems(3) x have mem: "(tip, r') = ?h \<or> (tip, r') \<in> set (track_seq row xs (Some (snd ?h)))"
    by (simp add: Let_def)
  have nzt: "latest_nzt_dt (snd ?h) \<le> now"
    using track_nzt [of now row sn found] Cons.prems(2) x by auto
  show ?case
  proof (cases "(tip, r') = ?h")
    case True
    then have t: "fst ?h = tip" and r: "snd ?h = r'" by (metis fst_conv, metis snd_conv)
    from Cons.prems(4) t have "latest_zt_dt (snd ?h) = Some now"
      using track_tip_zt [of now row sn found] by simp
    with nzt r show ?thesis by simp
  next
    case False
    with mem have m: "(tip, r') \<in> set (track_seq row xs (Some (snd ?h)))" by simp
    from Cons.prems(1) x have s: "sorted (map fst xs)" and le: "\<forall>t \<in> set (map fst xs). now \<le> t"
      by auto
    have b: "\<forall>r. Some (snd ?h) = Some r \<longrightarrow> (\<forall>t \<in> set (map fst xs). latest_nzt_dt r \<le> t)"
      using nzt le by auto
    from Cons.IH [OF s b m Cons.prems(4)] show ?thesis .
  qed
qed

subsection \<open>The filters\<close>

lemma truediv_nonzero: "b \<noteq> 0 \<Longrightarrow> truediv a b = Inr (fl (a / b))"
  by (simp add: truediv_def)

lemma rule_chain_spec:
  "rule_chain r =
     (if spec_rule_market_cap r \<and> spec_rule_price r \<and> spec_rule_turnover r
         \<and> float_rule_amount r \<and> float_rule_depth r
      then (case zt_keep_seconds r of Inl e \<Rightarrow> Inl e | Inr s \<Rightarrow> Inr (30 \<le> s))
      else Inr False)"
proof (cases "spec_rule_market_cap r")
  case True
  then have nz: "total_market_value r \<noteq> 0"
    by (auto simp: spec_rule_market_cap_def)
  from True have a: "\<not> (total_market_value r < 10 * 10000 * 10000
                        \<or> total_market_value r > 1000 * 10000 * 10000)"
    by (simp add: spec_rule_market_cap_def not_less)
  show ?thesis
    unfolding rule_chain_def
    using True a
    by (auto simp: truediv_nonzero [OF nz] spec_rule_price_def spec_rule_turnover_def
        float_rule_amount_def float_rule_depth_def not_less split: sum.splits)
next
  case False
  then have "total_market_value r < 10 * 10000 * 10000
             \<or> total_market_value r > 1000 * 10000 * 10000"
    by (auto simp: spec_rule_market_cap_def not_le)
  then show ?thesis using False by (simp add: rule_chain_def)
qed


lemma notice_gate_True_iff:
  "notice_gate tip r = Inr True \<longleftrightarrow>
     tip = Some ZT_TIP
     \<or> (tip = Some ZT_KEEP_TIP \<and> hold_seconds_sat (\<lambda>s. s \<le> ZT_NOTICE_MAX_SECONDS) r)"
  by (auto simp: notice_gate_def hold_seconds_sat_def split: sum.splits)

lemma notice_gate_closed:
  "notice_gate tip r \<noteq> Inr True \<Longrightarrow> \<not> notifies (notice now row sn tip r)"
  by (auto simp: notice_def notifies_def split: sum.splits)

lemma notice_gate_open:
  "notice_gate tip r = Inr True \<Longrightarrow>
     notice now row sn tip r =
       (case rule_chain r of
          Inl e \<Rightarrow> Inl e
        | Inr ok \<Rightarrow> if ok then map_sum id Some (render now row sn tip r) else Inr None)"
  by (auto simp: notice_def split: sum.splits)



lemma notice_no_tip:
  "tip \<noteq> Some ZT_TIP \<Longrightarrow> tip \<noteq> Some ZT_KEEP_TIP \<Longrightarrow> notice now row sn tip r = Inr None"
  by (simp add: notice_def notice_gate_def)

lemma notice_zt: "latest_zt_dt r = Some z \<Longrightarrow> \<exists>m. notice now row sn tip r = Inr m"
  by (auto simp: notice_def notice_gate_def rule_chain_spec render_def zt_keep_seconds_def)

lemma notice_track: "\<exists>m. notice now row sn (fst (track now row sn found)) (snd (track now row sn found)) = Inr m"
proof (cases "fst (track now row sn found) = Some ZT_TIP \<or> fst (track now row sn found) = Some ZT_KEEP_TIP")
  case True
  then have "latest_zt_dt (snd (track now row sn found)) = Some now"
    by (rule track_tip_zt)
  then show ?thesis by (rule notice_zt)
next
  case False
  then show ?thesis by (simp add: notice_no_tip)
qed

subsection \<open>One candidate, one cycle, the driver loop\<close>

lemma next_row_missing: "sns (row_stock_code row) = None \<Longrightarrow> next_row now sns row info = Inl KeyError"
  by (simp add: next_row_def)

lemma next_row_fetched:
  "sns (row_stock_code row) = Some sn \<Longrightarrow>
     next_row now sns row info =
       map_sum id (\<lambda>m. (info(row_stock_code row \<mapsto> snd (track now row sn (info (row_stock_code row)))), m))
         (notice now row sn (fst (track now row sn (info (row_stock_code row))))
            (snd (track now row sn (info (row_stock_code row)))))"
  by (auto simp: next_row_def split_beta split: sum.splits)

lemma next_row_returns:
  assumes "sns (row_stock_code row) = Some sn"
  shows "\<exists>m. next_row now sns row info =
           Inr (info(row_stock_code row \<mapsto> snd (track now row sn (info (row_stock_code row)))), m)"
proof -
  obtain m where "notice now row sn (fst (track now row sn (info (row_stock_code row))))
            (snd (track now row sn (info (row_stock_code row)))) = Inr m"
    using notice_track by blast
  then show ?thesis using assms by (simp add: next_row_fetched)
qed

lemma next_row_error: "next_row now sns row info = Inl e \<Longrightarrow> e = KeyError \<and> sns (row_stock_code row) = None"
proof (cases "sns (row_stock_code row)")
  case None
  assume "next_row now sns row info = Inl e"
  with None show ?thesis by (simp add: next_row_def)
next
  case (Some sn)
  assume e: "next_row now sns row info = Inl e"
  from Some next_row_returns [of sns row sn now info] obtain m info' where "next_row now sns row info = Inr (info', m)"
    by blast
  with e show ?thesis by simp
qed

lemma next_rows_error:
  "next_rows now sns rows info = Inl e \<Longrightarrow>
     e = KeyError \<and> \<not> list_all (\<lambda>row. sns (row_stock_code row) \<noteq> None) rows"
proof (induction rows arbitrary: info)
  case Nil
  then show ?case by simp
next
  case (Cons row rows)
  show ?case
  proof (cases "next_row now sns row info")
    case (Inl e')
    with Cons.prems have "e' = e" by simp
    with Inl next_row_error [of now sns row info e] show ?thesis by simp
  next
    case (Inr p)
    obtain info' m where p: "p = (info', m)" by (cases p)
    from Cons.prems Inr p have "next_rows now sns rows info' = Inl e"
      by (simp split: sum.splits prod.splits)
    then show ?thesis using Cons.IH by simp
  qed
qed

lemma next_rows_missing:
  "\<not> list_all (\<lambda>row. sns (row_stock_code row) \<noteq> None) rows \<Longrightarrow>
     next_rows now sns rows info = Inl KeyError"
proof (induction rows arbitrary: info)
  case Nil
  then show ?case by simp
next
  case (Cons row rows)
  show ?case
  proof (cases "sns (row_stock_code row)")
    case None
    then show ?thesis by (simp add: next_row_missing)
  next
    case (Some sn)
    from next_row_returns [of sns row sn now info] Some obtain info' m
      where r: "next_row now sns row info = Inr (info', m)" by blast
    from Cons.prems Some have "\<not> list_all (\<lambda>row. sns (row_stock_code row) \<noteq> None) rows"
      by simp
    then have "next_rows now sns rows info' = Inl KeyError" by (rule Cons.IH)
    with r show ?thesis by simp
  qed
qed

lemma next_rows_fetched:
  "list_all (\<lambda>row. sns (row_stock_code row) \<noteq> None) rows \<Longrightarrow>
     \<exists>info' ms. next_rows now sns rows info = Inr (info', ms)
        \<and> (\<forall>c. if c \<in> row_stock_code ` set rows
                 then (\<exists>r. info' c = Some r \<and> dt r = now)
                 else info' c = info c)"
proof (induction rows arbitrary: info)
  case Nil
  then show ?case by simp
next
  case (Cons row rows)
  from Cons.prems obtain sn where sn: "sns (row_stock_code row) = Some sn" by auto
  define r where "r = snd (track now row sn (info (row_stock_code row)))"
  from next_row_returns [of sns row sn now info] sn obtain m
    where nr: "next_row now sns row info = Inr (info(row_stock_code row \<mapsto> r), m)"
    unfolding r_def by blast
  have rdt: "dt r = now" by (simp add: r_def track_dt)
  from Cons.prems have "list_all (\<lambda>row. sns (row_stock_code row) \<noteq> None) rows" by simp
  from Cons.IH [OF this, of "info(row_stock_code row \<mapsto> r)"] obtain info' ms
    where rs: "next_rows now sns rows (info(row_stock_code row \<mapsto> r)) = Inr (info', ms)"
      and inv: "\<forall>c. if c \<in> row_stock_code ` set rows
                 then (\<exists>r. info' c = Some r \<and> dt r = now)
                 else info' c = (info(row_stock_code row \<mapsto> r)) c"
    by blast
  have "\<forall>c. if c \<in> row_stock_code ` set (row # rows)
                 then (\<exists>r. info' c = Some r \<and> dt r = now)
                 else info' c = info c"
  proof
    fix c
    show "if c \<in> row_stock_code ` set (row # rows)
                 then (\<exists>r. info' c = Some r \<and> dt r = now)
                 else info' c = info c"
      using inv [rule_format, of c] rdt by (auto split: if_splits)
  qed
  with nr rs show ?case by simp
qed

lemma candidates_filter:
  "candidates quotes = filter (\<lambda>r. case row_change_pct r of None \<Rightarrow> False | Some c \<Rightarrow> c > 8) quotes"
  unfolding candidates_def filter_filter by (rule filter_cong) (auto split: option.splits)

lemma get_snapshot_fast_candidates:
  "list_all (\<lambda>row. get_snapshot_fast fetch (map row_stock_code rows) (row_stock_code row) \<noteq> None) rows
   \<longleftrightarrow> list_all (\<lambda>row. fetch (row_stock_code row) \<noteq> None) rows"
  by (auto simp: get_snapshot_fast_def list_all_iff)

lemma Strategy_next_missing:
  assumes "\<not> all_fetched quotes fetch"
  shows "Strategy_next now quotes fetch info = Inl KeyError"
proof -
  from assms have ne: "candidates quotes \<noteq> []" by (auto simp: all_fetched_def)
  from assms have "\<not> list_all (\<lambda>row. get_snapshot_fast fetch (map row_stock_code (candidates quotes))
                       (row_stock_code row) \<noteq> None) (candidates quotes)"
    unfolding all_fetched_def
    using get_snapshot_fast_candidates [of fetch "candidates quotes"] by blast
  then have "next_rows now (get_snapshot_fast fetch (map row_stock_code (candidates quotes)))
               (candidates quotes) info = Inl KeyError"
    by (rule next_rows_missing)
  with ne show ?thesis by (simp add: Strategy_next_def Let_def)
qed

lemma Strategy_next_fetched:
  assumes "all_fetched quotes fetch"
  shows "\<exists>info' ms. Strategy_next now quotes fetch info = Inr (info', ms)
           \<and> (\<forall>c. if c \<in> row_stock_code ` set (candidates quotes)
                    then (\<exists>r. info' c = Some r \<and> dt r = now)
                    else info' c = info c)"
proof (cases "candidates quotes = []")
  case True
  then show ?thesis by (simp add: Strategy_next_def)
next
  case False
  from assms have "list_all (\<lambda>row. get_snapshot_fast fetch (map row_stock_code (candidates quotes))
                       (row_stock_code row) \<noteq> None) (candidates quotes)"
    unfolding all_fetched_def
    using get_snapshot_fast_candidates [of fetch "candidates quotes"] by blast
  from next_rows_fetched [OF this, of now info] False show ?thesis
    by (simp add: Strategy_next_def Let_def)
qed

lemma Strategy_next_error:
  "Strategy_next now quotes fetch info = Inl e \<Longrightarrow> e = KeyError \<and> \<not> all_fetched quotes fetch"
proof -
  assume e: "Strategy_next now quotes fetch info = Inl e"
  then have nf: "\<not> all_fetched quotes fetch"
    using Strategy_next_fetched [of quotes fetch now info] by auto
  then have "Strategy_next now quotes fetch info = Inl KeyError"
    by (rule Strategy_next_missing)
  with e nf show ?thesis by simp
qed

lemma start_loop_raised:
  "start_loop cs info sent = Some (Raised e) \<Longrightarrow>
     e = KeyError \<and> \<not> list_all (\<lambda>c. all_fetched (cy_quotes c) (cy_get_quote_snapshot c)) cs"
proof (induction cs arbitrary: info sent)
  case Nil
  then show ?case by simp
next
  case (Cons c cs)
  show ?case
  proof (cases "Strategy_next (cy_now c) (cy_quotes c) (cy_get_quote_snapshot c) info")
    case (Inl e')
    from Strategy_next_error [OF Inl] Cons.prems Inl show ?thesis
      by (auto split: if_splits)
  next
    case (Inr p)
    obtain info' ms where p: "p = (info', ms)" by (cases p)
    from Cons.prems Inr p have "start_loop cs info' (sent @ ms) = Some (Raised e)"
      by (simp split: if_splits)
    then show ?thesis using Cons.IH by simp
  qed
qed

lemma start_loop_stops:
  "list_all (\<lambda>c. all_fetched (cy_quotes c) (cy_get_quote_snapshot c)) cs \<Longrightarrow>
     (\<exists>info' out. start_loop cs info sent = Some (Finished info' out))
       \<longleftrightarrow> list_ex (\<lambda>c. \<not> cy_running c) cs"
proof (induction cs arbitrary: info sent)
  case Nil
  then show ?case by simp
next
  case (Cons c cs)
  from Cons.prems have f: "all_fetched (cy_quotes c) (cy_get_quote_snapshot c)" by simp
  from Strategy_next_fetched [OF f, of "cy_now c" info] obtain info' ms
    where s: "Strategy_next (cy_now c) (cy_quotes c) (cy_get_quote_snapshot c) info = Inr (info', ms)"
    by blast
  from Cons.prems have "list_all (\<lambda>c. all_fetched (cy_quotes c) (cy_get_quote_snapshot c)) cs"
    by simp
  from Cons.IH [OF this, of info' "sent @ ms"] s show ?case
    by (simp add: TEST_MODE_def)
qed

subsection \<open>The concrete inputs, evaluated\<close>

lemma tolerance_nonneg: "0 \<le> fl (1 / 100)"
  by (simp add: fl_literals)

lemma at_limit_ex_sn: "at_limit ex_sn"
  by (simp add: at_limit_def ex_sn_def fl_0 tolerance_nonneg)

lemma at_limit_below: "at_limit (ex_sn\<lparr>sn_price := fl (999 / 100)\<rparr>)"
  by (simp add: at_limit_def ex_sn_def fl_eval)


lemma wobble_prices:
  "fl (999 / 100) < 10" "10 < fl (1001 / 100)"
  "fl (999 / 100) < fl (1001 / 100)" "\<not> fl (1001 / 100) < fl (999 / 100)"
  "fl (999 / 100) \<noteq> fl (1001 / 100)" "fl (1001 / 100) \<noteq> fl (999 / 100)"
  by (simp_all add: fl_eval)


lemma not_at_limit_off: "\<not> at_limit (ex_sn\<lparr>sn_price := 39 / 4\<rparr>)"
  by (simp add: at_limit_def ex_sn_def fl_eval)

lemma ex_info_eval:
  "ex_info = \<lparr> stock_code = ''600000'', stock_name = ''PFYH'', dt = 0, price = 39 / 4,
       top_price = 10, bottom_price = 33 / 4, latest_zt_dt = None, latest_nzt_dt = 0,
       total_market_value = 1000000000, circulating_market_value = 800000000,
       turnover_rate = 10, trading_volume = 100000, trading_amount = 100000000,
       sell_1_price = 0, buy_1_price = 10, sell_1_count = 0, buy_1_count = 30000 \<rparr>"
  by (simp add: ex_info_def new_info_def ex_row_def ex_sn_def)

lemma ex_hit_eval:
  "ex_hit = \<lparr> stock_code = ''600000'', stock_name = ''PFYH'', dt = 40000000, price = 10,
       top_price = 10, bottom_price = 33 / 4, latest_zt_dt = Some 40000000, latest_nzt_dt = 0,
       total_market_value = 1000000000, circulating_market_value = 800000000,
       turnover_rate = 10, trading_volume = 100000, trading_amount = 100000000,
       sell_1_price = 0, buy_1_price = 10, sell_1_count = 0, buy_1_count = 30000 \<rparr>"
  by (simp add: ex_hit_def ex_info_eval track_Some classify_def ex_sn_def fl_eval)

lemma ex_keep_eval: "ex_keep = ex_hit"
  by (simp add: ex_keep_def ex_hit_eval track_Some track_None classify_def new_info_def
      ex_sn_def ex_row_def fl_eval)

lemma ex_keep_tip: "fst (track 40000000 ex_row ex_sn (Some (snd (track 0 ex_row ex_sn None)))) = Some ZT_KEEP_TIP"
  by (simp add: track_Some track_None classify_def new_info_def ex_sn_def ex_row_def fl_eval)

lemma ex_hit_hold: "zt_keep_seconds ex_hit = Inr 40"
  by (simp add: ex_hit_eval zt_keep_seconds_def timedelta_seconds_def)

lemma ex_hit_rules: "rule_chain ex_hit = Inr True"
  by (simp add: ex_hit_eval rule_chain_def truediv_def zt_keep_seconds_def timedelta_seconds_def
      fl_eval)


lemma ex_info_track: "track 0 ex_row (ex_sn\<lparr>sn_price := 39 / 4\<rparr>) None = (None, ex_info)"
  using not_at_limit_off
  by (simp add: track_None classify_def at_limit_def ex_info_def new_info_def)

lemma ex_hit_track: "track 40000000 ex_row ex_sn (Some ex_info) = (Some ZT_TIP, ex_hit)"
  using at_limit_ex_sn
  by (simp add: ex_hit_def track_Some classify_def at_limit_def ex_info_eval ex_sn_def)









section \<open>The claims\<close>

subsection \<open>C1: what an update does to the market fields\<close>

text \<open>
  What the update of an existing record does, for every input: \<open>price\<close> becomes the current
  price and \<open>dt\<close> the time of the cycle, and the nine market and liquidity fields keep the
  values the record had. Only lines 146 to 162, at the first sighting, read them from the
  quote row and the snapshot; lines 189 and 190 assign \<open>price\<close> and \<open>dt\<close> alone.
\<close>

lemma next_row_existing_record:
  assumes "info (row_stock_code row) = Some r" and "sns (row_stock_code row) = Some sn"
  shows "\<exists>r'. info_after (next_row now sns row info) (row_stock_code row) = Some r'
              \<and> price r' = sn_price sn \<and> dt r' = now
              \<and> market_fields r' = market_fields r"
proof -
  obtain m where "next_row now sns row info =
      Inr (info(row_stock_code row \<mapsto> snd (track now row sn (info (row_stock_code row)))), m)"
    using next_row_returns [of sns row sn now info] assms(2) by blast
  then have "info_after (next_row now sns row info) (row_stock_code row)
             = Some (snd (track now row sn (Some r)))"
    using assms(1) by (simp add: info_after_def)
  then show ?thesis
    by (simp add: track_price track_dt track_market_fields)
qed

text \<open>
  Claim C1 says that whenever a stock that already has a record reappears as a candidate,
  the market and liquidity fields of its record equal the values of the latest snapshot
  after the update. The code at a concrete input: the record \<open>ex_info\<close> was created at
  time 0 with turnover rate 10; 40 seconds later the stock is a candidate again, at its limit
  price, and its snapshot has turnover rate 20. The cycle raises nothing, the stored record
  still has turnover rate 10, so its market fields differ from those of the latest snapshot;
  the turnover rule (5 to 15) is passed on the stored value and a message is sent, reporting
  turnover rate 10.
\<close>

theorem existing_record_market_fields_stale:
  "map_option market_fields
     (info_after (next_row 40000000 [''600000'' \<mapsto> ex_sn\<lparr>sn_turnover_rate := 20\<rparr>] ex_row
                    [''600000'' \<mapsto> ex_info]) ''600000'')
   = Some [1000000000, 800000000, 10, 100000, 100000000, 0, 10, 0, 30000]
   \<and> latest_market_fields ex_row (ex_sn\<lparr>sn_turnover_rate := 20\<rparr>)
       = [1000000000, 800000000, 20, 100000, 100000000, 0, 10, 0, 30000]
   \<and> map_option market_fields
       (info_after (next_row 40000000 [''600000'' \<mapsto> ex_sn\<lparr>sn_turnover_rate := 20\<rparr>] ex_row
                      [''600000'' \<mapsto> ex_info]) ''600000'')
     \<noteq> Some (latest_market_fields ex_row (ex_sn\<lparr>sn_turnover_rate := 20\<rparr>))
   \<and> map_option msg_turnover_rate
       (message_of (next_row 40000000 [''600000'' \<mapsto> ex_sn\<lparr>sn_turnover_rate := 20\<rparr>] ex_row
                      [''600000'' \<mapsto> ex_info]))
     = Some 10"
  by (simp add: info_after_def message_of_def next_row_def track_Some classify_def notice_def
      notice_gate_def rule_chain_def truediv_def zt_keep_seconds_def timedelta_seconds_def
      render_def market_fields_def latest_market_fields_def ex_info_eval ex_row_def ex_sn_def
      fl_eval)

subsection \<open>C2: the trigger gate\<close>

text \<open>
  Claim C2: for every record and tip, the gate of lines 195 to 197 is open exactly when the
  tip is \<open>ZT_TIP\<close> (just hit), or the tip is \<open>ZT_KEEP_TIP\<close> (holding) and the hold time is
  defined and at most 33 seconds. When the gate is open the outcome is that of the rule
  chain; when it is not, no message is sent. In particular a holding record with a hold time
  of 40 seconds sends nothing, whatever the rules say.
\<close>

theorem trigger_gate:
  "(notice_gate tip r = Inr True \<longleftrightarrow>
      tip = Some ZT_TIP \<or> (tip = Some ZT_KEEP_TIP \<and> hold_seconds_sat (\<lambda>s. s \<le> 33) r))
   \<and> (notice_gate tip r = Inr True \<longrightarrow>
        notice now row sn tip r =
          (case rule_chain r of
             Inl e \<Rightarrow> Inl e
           | Inr ok \<Rightarrow> if ok then map_sum id Some (render now row sn tip r) else Inr None))
   \<and> (notice_gate tip r \<noteq> Inr True \<longrightarrow> \<not> notifies (notice now row sn tip r))
   \<and> (zt_keep_seconds r = Inr 40 \<longrightarrow> notice now row sn (Some ZT_KEEP_TIP) r = Inr None)"
proof -
  have a: "notice_gate tip r = Inr True \<longleftrightarrow>
      tip = Some ZT_TIP \<or> (tip = Some ZT_KEEP_TIP \<and> hold_seconds_sat (\<lambda>s. s \<le> 33) r)"
    using notice_gate_True_iff [of tip r] by (simp add: ZT_NOTICE_MAX_SECONDS_def)
  have d: "zt_keep_seconds r = Inr 40 \<longrightarrow> notice now row sn (Some ZT_KEEP_TIP) r = Inr None"
    by (simp add: notice_def notice_gate_def ZT_NOTICE_MAX_SECONDS_def)
  show ?thesis
    using a d notice_gate_open [of tip r now row sn] notice_gate_closed [of tip r now row sn]
    by blast
qed

text \<open>
  The witness is the second scenario of the specification: first sighting at the limit price
  at time 0, the same price 40 seconds later. The tip is \<open>ZT_KEEP_TIP\<close>, the hold time is 40,
  all six rules pass and no message is sent; the same record under the tip \<open>ZT_TIP\<close> passes
  the gate and is notified.
\<close>

theorem trigger_gate_witness:
  "fst (track 40000000 ex_row ex_sn (Some (snd (track 0 ex_row ex_sn None)))) = Some ZT_KEEP_TIP
   \<and> zt_keep_seconds ex_keep = Inr 40
   \<and> rule_chain ex_keep = Inr True
   \<and> notice_gate (Some ZT_KEEP_TIP) ex_keep = Inr False
   \<and> notice 40000000 ex_row ex_sn (Some ZT_KEEP_TIP) ex_keep = Inr None
   \<and> notice_gate (Some ZT_TIP) ex_keep = Inr True
   \<and> notifies (notice 40000000 ex_row ex_sn (Some ZT_TIP) ex_keep)"
  using trigger_gate [of "Some ZT_KEEP_TIP" ex_keep 40000000 ex_row ex_sn]
    trigger_gate [of "Some ZT_TIP" ex_keep 40000000 ex_row ex_sn]
  by (simp add: ex_keep_tip ex_keep_eval ex_hit_hold ex_hit_rules notice_gate_def
      ZT_NOTICE_MAX_SECONDS_def render_def notifies_def)

subsection \<open>C3: the rule chain is a conjunction\<close>




subsection \<open>C4: a price at the limit always gets a tip\<close>




subsection \<open>C5: a lower price within the tolerance is a break\<close>

text \<open>
  Claim C5: for every existing record and every snapshot whose price is within the tolerance
  of the limit price but strictly below the recorded price, the tip is \<open>ZT_BREAK_TIP\<close>,
  \<open>latest_nzt_dt\<close> becomes the time of the cycle and \<open>latest_zt_dt\<close> is unchanged.
\<close>

theorem break_on_lower_price:
  assumes "at_limit sn" and "sn_price sn < price r"
  shows "fst (track now row sn (Some r)) = Some ZT_BREAK_TIP
         \<and> latest_nzt_dt (snd (track now row sn (Some r))) = now
         \<and> latest_zt_dt (snd (track now row sn (Some r))) = latest_zt_dt r"
  using assms by (simp add: track_Some classify_def at_limit_def)

text \<open>
  The witness: \<open>ex_hit\<close> was at 10, its limit price, at second 40; at second 50 the price is
  9.99.
\<close>

theorem break_on_lower_price_witness:
  "at_limit (ex_sn\<lparr>sn_price := fl (999 / 100)\<rparr>) \<and> sn_price (ex_sn\<lparr>sn_price := fl (999 / 100)\<rparr>) < price ex_hit
   \<and> fst (track 50000000 ex_row (ex_sn\<lparr>sn_price := fl (999 / 100)\<rparr>) (Some ex_hit)) = Some ZT_BREAK_TIP
   \<and> latest_nzt_dt (snd (track 50000000 ex_row (ex_sn\<lparr>sn_price := fl (999 / 100)\<rparr>) (Some ex_hit))) = 50000000
   \<and> latest_zt_dt (snd (track 50000000 ex_row (ex_sn\<lparr>sn_price := fl (999 / 100)\<rparr>) (Some ex_hit))) = Some 40000000"
  using break_on_lower_price [of "ex_sn\<lparr>sn_price := fl (999 / 100)\<rparr>" ex_hit 50000000 ex_row]
  by (simp add: at_limit_below wobble_prices ex_hit_eval)

subsection \<open>C6: the hold time is not negative\<close>

text \<open>
  Claim C6: over every sequence of sightings of a stock, from its first one on, with times
  that never decrease, after every sighting classified as \<open>ZT_TIP\<close> or \<open>ZT_KEEP_TIP\<close> the
  hold time \<open>zt_keep_seconds\<close> is defined and at least 0. The difference it is read from is
  itself not negative then: \<open>latest_nzt_dt\<close> is not later than \<open>latest_zt_dt\<close>.
\<close>

theorem hold_seconds_nonneg:
  assumes "sorted (map fst xs)"
    and "(tip, r) \<in> set (track_seq row xs None)"
    and "tip = Some ZT_TIP \<or> tip = Some ZT_KEEP_TIP"
  shows "\<exists>z s. latest_zt_dt r = Some z \<and> latest_nzt_dt r \<le> z
               \<and> zt_keep_seconds r = Inr s \<and> 0 \<le> s"
proof -
  from track_seq_times [OF assms(1) _ assms(2) assms(3)]
  obtain z where z: "latest_zt_dt r = Some z" and le: "latest_nzt_dt r \<le> z" by auto
  from z have "zt_keep_seconds r = Inr (timedelta_seconds z (latest_nzt_dt r))"
    by (simp add: zt_keep_seconds_def)
  moreover have "0 \<le> timedelta_seconds z (latest_nzt_dt r)"
    using timedelta_seconds_range by blast
  ultimately show ?thesis using z le by simp
qed

text \<open>
  The witness: a first sighting below the limit at time 0 and a sighting at the limit
  40 seconds later; the hold time is 40.
\<close>

theorem hold_seconds_nonneg_witness:
  "sorted (map fst [(0::datetime, ex_sn\<lparr>sn_price := 39 / 4\<rparr>), (40000000, ex_sn)])
   \<and> (Some ZT_TIP, ex_hit) \<in> set (track_seq ex_row [(0, ex_sn\<lparr>sn_price := 39 / 4\<rparr>), (40000000, ex_sn)] None)
   \<and> zt_keep_seconds ex_hit = Inr 40
   \<and> (\<exists>z s. latest_zt_dt ex_hit = Some z \<and> latest_nzt_dt ex_hit \<le> z
               \<and> zt_keep_seconds ex_hit = Inr s \<and> 0 \<le> s)"
  using hold_seconds_nonneg [of "[(0, ex_sn\<lparr>sn_price := 39 / 4\<rparr>), (40000000, ex_sn)]"
      "Some ZT_TIP" ex_hit ex_row]
  by (simp add: Let_def ex_info_track ex_hit_track ex_hit_hold)

subsection \<open>C7: the same snapshot twice\<close>

text \<open>
  Claim C7: when the same snapshot, at the limit price, is fed twice in a row, whatever the
  record before and the two times, the record after the first sighting has the current price
  as its price, and the second sighting gets the tip \<open>ZT_KEEP_TIP\<close>, not \<open>ZT_TIP\<close>.
\<close>

theorem same_snapshot_twice_holding:
  assumes "at_limit sn"
  shows "price (snd (track t1 row sn found)) = sn_price sn
         \<and> fst (track t2 row sn (Some (snd (track t1 row sn found)))) = Some ZT_KEEP_TIP
         \<and> map fst (track_seq row [(t1, sn), (t2, sn)] found)
             = [fst (track t1 row sn found), Some ZT_KEEP_TIP]"
proof -
  have p: "price (snd (track t1 row sn found)) = sn_price sn"
    by (rule track_price)
  have k: "fst (track t2 row sn (Some (snd (track t1 row sn found)))) = Some ZT_KEEP_TIP"
    using assms p by (simp add: track_Some classify_def at_limit_def)
  show ?thesis using p k by (simp add: Let_def)
qed

text \<open>
  The witness: \<open>ex_info\<close> was below the limit; the snapshot at the limit price is seen at
  seconds 40 and 50: just hit, then holding.
\<close>

theorem same_snapshot_twice_holding_witness:
  "at_limit ex_sn
   \<and> fst (track 50000000 ex_row ex_sn (Some (snd (track 40000000 ex_row ex_sn (Some ex_info))))) = Some ZT_KEEP_TIP
   \<and> map fst (track_seq ex_row [(40000000, ex_sn), (50000000, ex_sn)] (Some ex_info))
       = [Some ZT_TIP, Some ZT_KEEP_TIP]"
  using same_snapshot_twice_holding [of ex_sn 40000000 ex_row "Some ex_info" 50000000]
  by (simp add: at_limit_ex_sn ex_hit_track)

subsection \<open>C8: a missing snapshot\<close>

text \<open>
  Claim C8 says that a candidate whose snapshot is missing is skipped, that the other
  candidates of the cycle are still processed, and that no error ends the driver loop. The
  code at a concrete input: the cycle has the candidates \<open>ex_row2\<close> and \<open>ex_row\<close>, the
  snapshot of \<open>ex_row2\<close> is missing and that of \<open>ex_row\<close> is there, the running flag is set.
  \<open>Strategy.next\<close> raises \<open>KeyError\<close> at line 134 and \<open>start\<close> ends by that exception.
\<close>

theorem missing_snapshot_counterexample:
  "cy_running ex_cycle
   \<and> candidates (cy_quotes ex_cycle) = [ex_row2, ex_row]
   \<and> cy_get_quote_snapshot ex_cycle (row_stock_code ex_row2) = None
   \<and> cy_get_quote_snapshot ex_cycle (row_stock_code ex_row) = Some ex_sn
   \<and> Strategy_next 0 (cy_quotes ex_cycle) (cy_get_quote_snapshot ex_cycle) Map.empty = Inl KeyError
   \<and> start [ex_cycle, ex_cycle\<lparr>cy_running := False\<rparr>] = Some (Raised KeyError)"
  by (simp add: start_def TEST_MODE_def Strategy_next_def candidates_filter get_snapshot_fast_def
      next_row_def ex_cycle_def ex_row_def ex_row2_def)

text \<open>
  Claim C8 as amended: when the snapshot of some candidate of a cycle is missing,
  \<open>Strategy.next\<close> raises \<open>KeyError\<close>, and a driver loop that starts that cycle ends by
  this exception. When every candidate of the cycle has its snapshot, \<open>Strategy.next\<close>
  raises nothing and leaves a record updated at the time of the cycle for every candidate.
  Over cycles that all have every snapshot, the driver loop never ends by an exception, and
  it ends exactly when it finds the running flag cleared. (The quote scan and the notifier
  are taken to return.)
\<close>

theorem missing_snapshot_raises:
  "(\<not> all_fetched quotes fetch \<longrightarrow> Strategy_next now quotes fetch info = Inl KeyError)
   \<and> (all_fetched quotes fetch \<longrightarrow>
        (\<exists>info' ms. Strategy_next now quotes fetch info = Inr (info', ms)
           \<and> (\<forall>row \<in> set (candidates quotes).
                 \<exists>r. info' (row_stock_code row) = Some r \<and> dt r = now)))
   \<and> (cy_running c \<and> \<not> all_fetched (cy_quotes c) (cy_get_quote_snapshot c) \<longrightarrow>
        start_loop (c # cs) info sent = Some (Raised KeyError))
   \<and> (list_all (\<lambda>c. all_fetched (cy_quotes c) (cy_get_quote_snapshot c)) cs' \<longrightarrow>
        (\<forall>e. start_loop cs' info sent \<noteq> Some (Raised e))
        \<and> ((\<exists>info' out. start_loop cs' info sent = Some (Finished info' out))
             \<longleftrightarrow> list_ex (\<lambda>c. \<not> cy_running c) cs'))"
proof -
  have a: "\<not> all_fetched quotes fetch \<longrightarrow> Strategy_next now quotes fetch info = Inl KeyError"
    by (simp add: Strategy_next_missing)
  have b: "\<exists>info' ms. Strategy_next now quotes fetch info = Inr (info', ms)
           \<and> (\<forall>row \<in> set (candidates quotes).
                 \<exists>r. info' (row_stock_code row) = Some r \<and> dt r = now)"
    if f: "all_fetched quotes fetch"
  proof -
    from Strategy_next_fetched [OF f, of now info] obtain info' ms
      where s: "Strategy_next now quotes fetch info = Inr (info', ms)"
        and inv: "\<forall>c. if c \<in> row_stock_code ` set (candidates quotes)
                    then (\<exists>r. info' c = Some r \<and> dt r = now)
                    else info' c = info c"
      by blast
    have "\<exists>r. info' (row_stock_code row) = Some r \<and> dt r = now"
      if "row \<in> set (candidates quotes)" for row
      using inv [rule_format, of "row_stock_code row"] that by simp
    with s show ?thesis by simp
  qed
  have c: "cy_running c \<and> \<not> all_fetched (cy_quotes c) (cy_get_quote_snapshot c) \<longrightarrow>
        start_loop (c # cs) info sent = Some (Raised KeyError)"
    by (simp add: Strategy_next_missing TEST_MODE_def)
  have d: "\<forall>e. start_loop cs' info sent \<noteq> Some (Raised e)"
    if "list_all (\<lambda>c. all_fetched (cy_quotes c) (cy_get_quote_snapshot c)) cs'"
    using that start_loop_raised [of cs' info sent] by blast
  show ?thesis
    using a b c d start_loop_stops [of cs' info sent] by blast
qed

text \<open>
  The witness: the cycle above, and the same cycle with \<open>ex_row\<close> as its only candidate
  followed by a cycle that finds the running flag cleared.
\<close>

theorem missing_snapshot_raises_witness:
  "\<not> all_fetched (cy_quotes ex_cycle) (cy_get_quote_snapshot ex_cycle)
   \<and> Strategy_next 0 (cy_quotes ex_cycle) (cy_get_quote_snapshot ex_cycle) Map.empty = Inl KeyError
   \<and> start_loop [ex_cycle, ex_cycle\<lparr>cy_running := False\<rparr>] Map.empty [] = Some (Raised KeyError)
   \<and> all_fetched [ex_row] [''600000'' \<mapsto> ex_sn]
   \<and> (\<exists>info' ms. Strategy_next 0 [ex_row] [''600000'' \<mapsto> ex_sn] Map.empty = Inr (info', ms)
         \<and> (\<exists>r. info' ''600000'' = Some r \<and> dt r = 0))
   \<and> list_all (\<lambda>c. all_fetched (cy_quotes c) (cy_get_quote_snapshot c))
        [ex_cycle\<lparr>cy_quotes := [ex_row]\<rparr>, ex_cycle\<lparr>cy_running := False, cy_quotes := [ex_row]\<rparr>]
   \<and> (\<exists>info' out. start_loop [ex_cycle\<lparr>cy_quotes := [ex_row]\<rparr>,
                                ex_cycle\<lparr>cy_running := False, cy_quotes := [ex_row]\<rparr>] Map.empty []
          = Some (Finished info' out))"
  using missing_snapshot_raises [of "cy_quotes ex_cycle" "cy_get_quote_snapshot ex_cycle" 0
      Map.empty ex_cycle "[ex_cycle\<lparr>cy_running := False\<rparr>]" "[]" "[]"]
    missing_snapshot_raises [of "[ex_row]" "[''600000'' \<mapsto> ex_sn]" 0
      Map.empty "ex_cycle\<lparr>cy_quotes := [ex_row]\<rparr>" "[]" "[]"
      "[ex_cycle\<lparr>cy_quotes := [ex_row]\<rparr>, ex_cycle\<lparr>cy_running := False, cy_quotes := [ex_row]\<rparr>]"]
  by (simp add: all_fetched_def candidates_filter ex_cycle_def ex_row_def ex_row2_def)

subsection \<open>C9: no message at a first sighting\<close>

text \<open>
  Claim C9: at the first sighting of a stock no message is sent, whatever the values the
  filters read: the cycle step returns the dictionary with the new record and no message (or
  raises \<open>KeyError\<close> when the snapshot is missing). When the price is at the limit the tip is
  \<open>ZT_TIP\<close>, both time stamps are the time of the cycle and the hold time is 0, below the 30
  seconds of the last rule.
\<close>

theorem first_sighting_never_notifies:
  assumes "info (row_stock_code row) = None"
  shows "(sns (row_stock_code row) = None \<longrightarrow> next_row now sns row info = Inl KeyError)
         \<and> (\<forall>sn. sns (row_stock_code row) = Some sn \<longrightarrow>
               next_row now sns row info
                 = Inr (info(row_stock_code row \<mapsto> snd (track now row sn None)), None)
               \<and> (at_limit sn \<longrightarrow>
                    fst (track now row sn None) = Some ZT_TIP
                    \<and> latest_zt_dt (snd (track now row sn None)) = Some now
                    \<and> latest_nzt_dt (snd (track now row sn None)) = now
                    \<and> zt_keep_seconds (snd (track now row sn None)) = Inr 0))"
proof -
  have n: "notice now row sn (fst (track now row sn None)) (snd (track now row sn None)) = Inr None" for sn
    by (simp add: track_None classify_def new_info_def notice_def notice_gate_def
        rule_chain_spec zt_keep_seconds_def timedelta_seconds_def)
  have r: "next_row now sns row info
             = Inr (info(row_stock_code row \<mapsto> snd (track now row sn None)), None)"
    if "sns (row_stock_code row) = Some sn" for sn
    using that assms n [of sn] by (simp add: next_row_fetched)
  have z: "fst (track now row sn None) = Some ZT_TIP
           \<and> latest_zt_dt (snd (track now row sn None)) = Some now
           \<and> latest_nzt_dt (snd (track now row sn None)) = now
           \<and> zt_keep_seconds (snd (track now row sn None)) = Inr 0" if "at_limit sn" for sn
    using that by (simp add: track_None classify_def new_info_def at_limit_def
        zt_keep_seconds_def timedelta_seconds_def)
  show ?thesis using r z by (simp add: next_row_missing)
qed

text \<open>
  The witness: \<open>ex_row\<close> is first seen at its limit price with values that pass the first
  five rules.
\<close>

theorem first_sighting_never_notifies_witness:
  "Map.empty (row_stock_code ex_row) = None
   \<and> [''600000'' \<mapsto> ex_sn] (row_stock_code ex_row) = Some ex_sn
   \<and> at_limit ex_sn
   \<and> next_row 0 [''600000'' \<mapsto> ex_sn] ex_row Map.empty
       = Inr ([''600000'' \<mapsto> snd (track 0 ex_row ex_sn None)], None)
   \<and> zt_keep_seconds (snd (track 0 ex_row ex_sn None)) = Inr 0
   \<and> next_row 0 Map.empty ex_row Map.empty = Inl KeyError"
  using first_sighting_never_notifies [of Map.empty ex_row "[''600000'' \<mapsto> ex_sn]" 0]
    first_sighting_never_notifies [of Map.empty ex_row Map.empty 0]
  by (simp add: ex_row_def at_limit_ex_sn)

subsection \<open>C10: the hold time is never read from \<open>None\<close>\<close>

text \<open>
  Claim C10: \<open>latest_zt_dt\<close> starts as \<open>None\<close>, and \<open>zt_keep_seconds\<close> raises \<open>TypeError\<close>
  on it. A sighting classified as \<open>ZT_TIP\<close> or \<open>ZT_KEEP_TIP\<close> has set \<open>latest_zt_dt\<close> to the
  time of the cycle; under any other tip the filters return without a message whatever the
  record holds, so they do not depend on the hold time; with \<open>latest_zt_dt\<close> set the filters
  raise nothing. Hence no step of a cycle, no cycle and no run of the driver loop raises
  \<open>TypeError\<close>.
\<close>

theorem zt_keep_seconds_defined:
  "(fst (track now row sn found) = Some ZT_TIP \<or> fst (track now row sn found) = Some ZT_KEEP_TIP
      \<longrightarrow> latest_zt_dt (snd (track now row sn found)) = Some now)
   \<and> (tip \<noteq> Some ZT_TIP \<and> tip \<noteq> Some ZT_KEEP_TIP \<longrightarrow> notice now row sn tip r = Inr None)
   \<and> (latest_zt_dt r \<noteq> None \<longrightarrow> (\<exists>m. notice now row sn tip r = Inr m))
   \<and> next_row now sns row info \<noteq> Inl TypeError
   \<and> Strategy_next now quotes fetch info \<noteq> Inl TypeError
   \<and> start cs \<noteq> Some (Raised TypeError)"
proof -
  have a: "fst (track now row sn found) = Some ZT_TIP \<or> fst (track now row sn found) = Some ZT_KEEP_TIP
      \<longrightarrow> latest_zt_dt (snd (track now row sn found)) = Some now"
    using track_tip_zt [of now row sn found] by blast
  have b: "tip \<noteq> Some ZT_TIP \<and> tip \<noteq> Some ZT_KEEP_TIP \<longrightarrow> notice now row sn tip r = Inr None"
    by (simp add: notice_no_tip)
  have c: "latest_zt_dt r \<noteq> None \<longrightarrow> (\<exists>m. notice now row sn tip r = Inr m)"
    using notice_zt [of r _ now row sn tip] by auto
  have d: "next_row now sns row info \<noteq> Inl TypeError"
    using next_row_error [of now sns row info TypeError] by auto
  have e: "Strategy_next now quotes fetch info \<noteq> Inl TypeError"
    using Strategy_next_error [of now quotes fetch info TypeError] by auto
  have f: "start cs \<noteq> Some (Raised TypeError)"
    using start_loop_raised [of cs Map.empty "[]" TypeError] by (auto simp: start_def)
  show ?thesis using a b c d e f by blast
qed

text \<open>
  The witness: a first sighting at the limit price sets \<open>latest_zt_dt\<close>; the record
  \<open>ex_info\<close>, whose \<open>latest_zt_dt\<close> is \<open>None\<close>, goes through the filters under the tips
  \<open>ZT_BREAK_TIP\<close> and \<open>None\<close> without an error.
\<close>

theorem zt_keep_seconds_defined_witness:
  "fst (track 0 ex_row ex_sn None) = Some ZT_TIP
   \<and> latest_zt_dt (snd (track 0 ex_row ex_sn None)) = Some 0
   \<and> latest_zt_dt ex_info = None
   \<and> notice 40000000 ex_row ex_sn (Some ZT_BREAK_TIP) ex_info = Inr None
   \<and> notice 40000000 ex_row ex_sn None ex_info = Inr None
   \<and> latest_zt_dt ex_hit \<noteq> None
   \<and> (\<exists>m. notice 40000000 ex_row ex_sn (Some ZT_TIP) ex_hit = Inr m)"
  using zt_keep_seconds_defined [of 0 ex_row ex_sn None "Some ZT_BREAK_TIP" ex_info]
    zt_keep_seconds_defined [of 40000000 ex_row ex_sn None "Some ZT_BREAK_TIP" ex_info]
    zt_keep_seconds_defined [of 40000000 ex_row ex_sn None None ex_info]
    zt_keep_seconds_defined [of 40000000 ex_row ex_sn None "Some ZT_TIP" ex_hit]
  by (simp add: track_tip_None at_limit_ex_sn ex_info_eval ex_hit_eval)

end
